theory Spec2Isabelle
  imports Main "HOL-Library.Word" "HOL-Library.Sublist"
begin

section \<open>Strings, byte arrays and paths\<close>

text \<open>
  A QString is a \<open>string\<close>. Qt's null string and its empty string compare equal, are both
  empty and read back from the store as the same value; the model has the one value \<open>[]\<close>
  for both. A QByteArray is a list of bytes.
\<close>

type_synonym QByteArray = "8 word list"

definition isNull :: "string \<Rightarrow> bool" where
  "isNull s = (s = [])"

text \<open>\<^verbatim>\<open>emptyIfNull\<close> (libraryutils.cpp, line 75).\<close>

definition emptyIfNull :: "string \<Rightarrow> string" where
  "emptyIfNull s = (if isNull s then [] else s)"

definition startsWith :: "string \<Rightarrow> string \<Rightarrow> bool" where
  "startsWith s p = prefix p s"

definition endsWith :: "string \<Rightarrow> char \<Rightarrow> bool" where
  "endsWith s c = (case rev s of [] \<Rightarrow> False | x # _ \<Rightarrow> x = c)"

text \<open>\<^verbatim>\<open>QString::contains\<close> and \<^verbatim>\<open>QString::indexOf\<close> (\<open>-1\<close> when the pattern is absent).\<close>

fun containsStr :: "string \<Rightarrow> string \<Rightarrow> bool" where
  "containsStr [] p = (p = [])"
| "containsStr (c # s) p = (prefix p (c # s) \<or> containsStr s p)"

fun indexOf :: "string \<Rightarrow> string \<Rightarrow> int" where
  "indexOf [] p = (if p = [] then 0 else - 1)"
| "indexOf (c # s) p =
     (if prefix p (c # s) then 0
      else (let i = indexOf s p in if i < 0 then - 1 else i + 1))"

text \<open>\<^verbatim>\<open>QString::left(n)\<close>: the whole string when \<open>n\<close> is negative or too large.\<close>

definition left :: "string \<Rightarrow> int \<Rightarrow> string" where
  "left s n = (if n < 0 \<or> int (length s) \<le> n then s else take (nat n) s)"

definition toLower :: "char \<Rightarrow> char" where
  "toLower c =
     (let n = (of_char c :: nat) in if 65 \<le> n \<and> n \<le> 90 then char_of (n + 32) else c)"

text \<open>
  Paths are the strings Qt hands out: absolute, with \<open>/\<close> as separator.
  \<open>fileName\<close>, \<open>path\<close>, \<open>fileSuffix\<close> and \<open>baseName\<close> are QFileInfo's \<^verbatim>\<open>fileName()\<close>,
  \<^verbatim>\<open>path()\<close> (which is also \<^verbatim>\<open>absolutePath()\<close> on an absolute path), \<^verbatim>\<open>suffix()\<close> and
  \<^verbatim>\<open>baseName()\<close>; \<open>dirFilePath\<close> is \<^verbatim>\<open>QDir::filePath\<close>.
\<close>

definition fileName :: "string \<Rightarrow> string" where
  "fileName p = rev (takeWhile (\<lambda>c. c \<noteq> CHR ''/'') (rev p))"

definition path :: "string \<Rightarrow> string" where
  "path p =
     (let d = rev (drop 1 (dropWhile (\<lambda>c. c \<noteq> CHR ''/'') (rev p)))
      in if d \<noteq> [] then d else if CHR ''/'' \<in> set p then ''/'' else ''.'')"

definition fileSuffix :: "string \<Rightarrow> string" where
  "fileSuffix p =
     (let n = fileName p
      in if CHR ''.'' \<in> set n then rev (takeWhile (\<lambda>c. c \<noteq> CHR ''.'') (rev n)) else [])"

definition baseName :: "string \<Rightarrow> string" where
  "baseName p = takeWhile (\<lambda>c. c \<noteq> CHR ''.'') (fileName p)"

definition dirFilePath :: "string \<Rightarrow> string \<Rightarrow> string" where
  "dirFilePath dir name = (if endsWith dir (CHR ''/'') then dir @ name else dir @ ''/'' @ name)"

text \<open>\<^verbatim>\<open>QByteArray::toHex\<close>: two lower-case hexadecimal digits for every byte.\<close>

definition hexDigit :: "nat \<Rightarrow> char" where
  "hexDigit n = (if n < 10 then char_of (48 + n) else char_of (87 + n))"

fun toHex :: "QByteArray \<Rightarrow> string" where
  "toHex [] = []"
| "toHex (b # bs) = hexDigit (unat b div 16) # hexDigit (unat b mod 16) # toHex bs"

section \<open>Track information and table rows\<close>

text \<open>
  Modelled from the spec: \<^verbatim>\<open>tagutils::Info\<close> is declared in tagutils.h, which is not among the
  sources; the fields are those the spec lists for the tag reader's result and
  libraryutils.cpp reads.
\<close>

record Info =
  title :: string
  artists :: "string list"
  albums :: "string list"
  genres :: "string list"
  year :: int
  trackNumber :: int
  discNumber :: string
  duration :: int
  mediaArtData :: QByteArray

text \<open>A row of the table \<^verbatim>\<open>tracks\<close> (the \<^verbatim>\<open>CREATE TABLE\<close> of \<^verbatim>\<open>initDatabase\<close>).\<close>

record track =
  row_id :: int
  row_filePath :: string
  row_modificationTime :: int
  row_title :: string
  row_artist :: string
  row_album :: string
  row_year :: int
  row_trackNumber :: int
  row_discNumber :: string
  row_genre :: string
  row_duration :: int
  row_mediaArt :: string

section \<open>The file system\<close>

text \<open>
  A file system is a list of entries, a path with what is found there. For an audio file
  the node carries what the two external collaborators answer for its content: the MIME
  type by content (\<^verbatim>\<open>QMimeDatabase::mimeTypeForFile\<close>) and the tags
  (\<^verbatim>\<open>tagutils::getTrackInfo\<close>). The order of the list is the order in which directory
  listings and the directory iterator yield the entries.
\<close>

record fnode =
  nodeIsDir :: bool
  nodeIsReadable :: bool
  nodeLastModified :: int
  nodeMimeType :: string
  nodeTrackInfo :: Info

type_synonym filesystem = "(string \<times> fnode) list"

record QFileInfo =
  filePath :: string
  fileNode :: "fnode option"

definition fileInfoOf :: "filesystem \<Rightarrow> string \<Rightarrow> QFileInfo" where
  "fileInfoOf fsys p = \<lparr>filePath = p, fileNode = map_of fsys p\<rparr>"

definition exists :: "QFileInfo \<Rightarrow> bool" where
  "exists fi = (fileNode fi \<noteq> None)"

definition isDir :: "QFileInfo \<Rightarrow> bool" where
  "isDir fi = (case fileNode fi of None \<Rightarrow> False | Some n \<Rightarrow> nodeIsDir n)"

definition isFile :: "QFileInfo \<Rightarrow> bool" where
  "isFile fi = (case fileNode fi of None \<Rightarrow> False | Some n \<Rightarrow> \<not> nodeIsDir n)"

definition isReadable :: "QFileInfo \<Rightarrow> bool" where
  "isReadable fi = (case fileNode fi of None \<Rightarrow> False | Some n \<Rightarrow> nodeIsReadable n)"

definition lastModified :: "QFileInfo \<Rightarrow> int" where
  "lastModified fi = (case fileNode fi of None \<Rightarrow> 0 | Some n \<Rightarrow> nodeLastModified n)"

definition emptyInfo :: Info where
  "emptyInfo = \<lparr>title = [], artists = [], albums = [], genres = [], year = 0,
     trackNumber = 0, discNumber = [], duration = 0, mediaArtData = []\<rparr>"

definition mimeTypeForFile :: "QFileInfo \<Rightarrow> string" where
  "mimeTypeForFile fi = (case fileNode fi of None \<Rightarrow> [] | Some n \<Rightarrow> nodeMimeType n)"

definition getTrackInfo :: "QFileInfo \<Rightarrow> string \<Rightarrow> Info" where
  "getTrackInfo fi mimeType = (case fileNode fi of None \<Rightarrow> emptyInfo | Some n \<Rightarrow> nodeTrackInfo n)"

text \<open>A file written by the program: a readable regular file.\<close>

definition writtenFile :: fnode where
  "writtenFile = \<lparr>nodeIsDir = False, nodeIsReadable = True, nodeLastModified = 0,
     nodeMimeType = [], nodeTrackInfo = emptyInfo\<rparr>"

definition writeFile :: "string \<Rightarrow> filesystem \<Rightarrow> filesystem" where
  "writeFile p fsys =
     (if p \<in> set (map fst fsys)
      then map (\<lambda>e. if fst e = p then (p, writtenFile) else e) fsys
      else fsys @ [(p, writtenFile)])"

definition removeFile :: "string \<Rightarrow> filesystem \<Rightarrow> filesystem" where
  "removeFile p fsys = filter (\<lambda>e. fst e \<noteq> p) fsys"

text \<open>The regular files of a directory, as paths: \<^verbatim>\<open>QDir(dir).entryInfoList(QDir::Files)\<close>.\<close>

definition entryFiles :: "filesystem \<Rightarrow> string \<Rightarrow> string list" where
  "entryFiles fsys dir =
     map fst (filter (\<lambda>e. \<not> nodeIsDir (snd e) \<and> fst e = dirFilePath dir (fileName (fst e))) fsys)"

text \<open>\<^verbatim>\<open>QDir(dir).entryList(QDir::Files | QDir::Readable)\<close>: names of the readable regular files.\<close>

definition entryList :: "filesystem \<Rightarrow> string \<Rightarrow> string list" where
  "entryList fsys dir =
     map fileName (filter (\<lambda>p. isReadable (fileInfoOf fsys p)) (entryFiles fsys dir))"

text \<open>
  The pattern of \<^verbatim>\<open>findMediaArtForDirectory\<close>,
  \<^verbatim>\<open>^(albumart.*|cover|folder|front)\.(jpeg|jpg|png)$\<close>, without regard to case: the dot
  matches no line feed, and the dollar also matches before a final line feed.
\<close>

definition matchesMediaArtName :: "string \<Rightarrow> bool" where
  "matchesMediaArtName name =
     (let l = map toLower name;
          s = (if endsWith l (CHR 0x0A) then butlast l else l)
      in list_ex (\<lambda>ext.
           suffix (CHR ''.'' # ext) s \<and>
           (let stem = take (length s - Suc (length ext)) s
            in stem \<in> set [''cover'', ''folder'', ''front''] \<or>
               (prefix ''albumart'' stem \<and> CHR 0x0A \<notin> set stem)))
         [''jpeg'', ''jpg'', ''png''])"

text \<open>The name filter \<^verbatim>\<open>*-embedded.*\<close> of a directory listing, without regard to case.\<close>

definition matchesEmbeddedWildcard :: "string \<Rightarrow> bool" where
  "matchesEmbeddedWildcard name = containsStr (map toLower name) ''-embedded.''"

section \<open>The store\<close>

text \<open>
  The statements libraryutils.cpp sends to the store, one constructor for each query text.
  \<open>InsertTracks\<close> is the \<^verbatim>\<open>INSERT\<close> of \<^verbatim>\<open>updateTrackInDatabase\<close>: the number of
  value tuples written into the query text, the five numbers substituted into every tuple
  (id, modificationTime, year, trackNumber, duration), and the values bound to the
  placeholders, seven for a tuple.
\<close>

datatype statement =
    DeleteTrack int
  | InsertTracks nat int int int int int "string list"
  | UpdateMediaArt string int
  | DeleteTracks "int list"
  | ClearMediaArt "string list"
  | SelectTracks
  | SelectMediaArt
  | CountArtists
  | CountAlbums
  | CountTracks
  | SumDuration
  | RandomMediaArt
  | RandomMediaArtForArtist string
  | RandomMediaArtForAlbum string string
  | RandomMediaArtForGenre string

text \<open>
  A connection: the rows of \<^verbatim>\<open>tracks\<close> it sees and the statements sent through it so far,
  each with whether it was executed.
\<close>

record QSqlDatabase =
  tracks :: "track list"
  executed :: "(statement \<times> bool) list"

fun valuesRows :: "int \<Rightarrow> int \<Rightarrow> int \<Rightarrow> int \<Rightarrow> int \<Rightarrow> string list \<Rightarrow> track list" where
  "valuesRows i m y n d (fp # t # ar # al # dn # g # ma # rest) =
     \<lparr>row_id = i, row_filePath = fp, row_modificationTime = m, row_title = t,
      row_artist = ar, row_album = al, row_year = y, row_trackNumber = n,
      row_discNumber = dn, row_genre = g, row_duration = d, row_mediaArt = ma\<rparr>
     # valuesRows i m y n d rest"
| "valuesRows i m y n d rest = []"

text \<open>
  What a statement does to the rows when it is executed; \<open>None\<close> when it cannot be
  (the bound values do not fill the placeholders).
\<close>

fun runStatement :: "statement \<Rightarrow> track list \<Rightarrow> track list option" where
  "runStatement (DeleteTrack i) rs = Some (filter (\<lambda>r. row_id r \<noteq> i) rs)"
| "runStatement (InsertTracks c i m y n d binds) rs =
     (if length binds = 7 * c then Some (rs @ valuesRows i m y n d binds) else None)"
| "runStatement (UpdateMediaArt art i) rs =
     Some (map (\<lambda>r. if row_id r = i then r\<lparr>row_mediaArt := art\<rparr> else r) rs)"
| "runStatement (DeleteTracks ids) rs = Some (filter (\<lambda>r. row_id r \<notin> set ids) rs)"
| "runStatement (ClearMediaArt arts) rs =
     Some (map (\<lambda>r. if row_mediaArt r \<in> set arts then r\<lparr>row_mediaArt := []\<rparr> else r) rs)"
| "runStatement q rs = Some rs"

text \<open>
  \<^verbatim>\<open>QSqlQuery::exec\<close>. Whether the store can execute the \<open>n\<close>-th statement of a connection
  is not the program's to decide: \<open>ok n\<close> says so. A statement that fails changes no row.
\<close>

definition exec :: "(nat \<Rightarrow> bool) \<Rightarrow> statement \<Rightarrow> QSqlDatabase \<Rightarrow> bool \<times> QSqlDatabase" where
  "exec ok q d =
     (case (if ok (length (executed d)) then runStatement q (tracks d) else None) of
        None \<Rightarrow> (False, d\<lparr>executed := executed d @ [(q, False)]\<rparr>)
      | Some rs \<Rightarrow> (True, d\<lparr>tracks := rs, executed := executed d @ [(q, True)]\<rparr>))"

text \<open>
  The row sets of the \<^verbatim>\<open>SELECT\<close> statements. Where a query groups by a column and reads
  another one bare, SQLite takes it from a row of the group it chooses; the model takes
  the first row of the group.
\<close>

definition groupIds :: "track list \<Rightarrow> int list" where
  "groupIds rs = sort (remdups (map row_id rs))"

definition groupRow :: "track list \<Rightarrow> int \<Rightarrow> track" where
  "groupRow rs i = hd (filter (\<lambda>r. row_id r = i) rs)"

definition selectTracks :: "track list \<Rightarrow> (int \<times> string \<times> int \<times> string) list" where
  "selectTracks rs =
     map (\<lambda>i. let r = groupRow rs i
               in (i, row_filePath r, row_modificationTime r, row_mediaArt r)) (groupIds rs)"

definition selectMediaArt :: "track list \<Rightarrow> string list" where
  "selectMediaArt rs = remdups (filter (\<lambda>a. a \<noteq> []) (map row_mediaArt rs))"

text \<open>\<^verbatim>\<open>QVariant::toInt\<close> of a 64-bit integer result: the low 32 bits, signed.\<close>

definition toInt :: "int \<Rightarrow> int" where
  "toInt v = sint (word_of_int v :: 32 word)"

section \<open>The environment of a scan\<close>

text \<open>
  Modelled from the spec: \<^verbatim>\<open>Settings\<close> is declared in settings.h, which is not among the
  sources; these are the three values \<^verbatim>\<open>updateDatabase\<close> reads from it.
\<close>

record Settings =
  libraryDirectories :: "string list"
  blacklistedDirectories :: "string list"
  useDirectoryMediaArt :: bool

text \<open>
  What the program asks of Qt and of the platform and cannot compute itself: the MD5 digest
  of a byte array, the preferred suffix of the MIME type of a byte array, whether a file
  can be opened for writing or removed, whether the store can be opened, whether a
  directory can be made, whether the \<open>n\<close>-th statement of the rescan connection can be
  executed, and whether the application object is still there when the \<open>n\<close>-th entry of the
  walk is reached.
\<close>

record Env =
  settings :: Settings
  md5 :: "QByteArray \<Rightarrow> QByteArray"
  preferredSuffix :: "QByteArray \<Rightarrow> string"
  canOpenFile :: "string \<Rightarrow> bool"
  canRemoveFile :: "string \<Rightarrow> bool"
  canOpenDatabase :: bool
  canMakePath :: bool
  statementOk :: "nat \<Rightarrow> bool"
  appRunning :: "nat \<Rightarrow> bool"

text \<open>The members of \<^verbatim>\<open>LibraryUtils\<close> (its constructor, line 891).\<close>

record LibraryUtils =
  mDatabaseInitialized :: bool
  mCreatedTable :: bool
  mUpdating :: bool
  mDatabaseFilePath :: string
  mMediaArtDirectory :: string

text \<open>
  The state of one run of the worker of \<^verbatim>\<open>updateDatabase\<close>: the rescan connection, the file
  system, the warnings written with \<^verbatim>\<open>qWarning\<close>, the art files written, and the local
  variables of the worker that its lambdas and callees change. The hash maps that are only
  looked up are maps; \<open>mediaArtExistanceHash\<close>, which is also iterated over, is a list of
  pairs in the order of insertion. Ids, times and counters are integers without bound: the
  program copies and compares them, and adds one to \<open>lastId\<close>, which stays a C++ \<^verbatim>\<open>int\<close> as
  long as fewer than \<open>2\<^sup>3\<^sup>1\<close> ids have been given out.
\<close>

record scan =
  db :: QSqlDatabase
  fs :: filesystem
  warnings :: "string list"
  written :: "(string \<times> QByteArray) list"
  visited :: nat
  noMediaDirectories :: "string \<rightharpoonup> bool"
  files :: "string \<rightharpoonup> int"
  lastId :: int
  modificationTimeHash :: "int \<rightharpoonup> int"
  mediaArtHash :: "int \<rightharpoonup> string"
  mediaArtExistanceHash :: "(string \<times> bool) list"
  deletedMediaArtCount :: int
  filesToRemove :: "int list"
  embeddedMediaArtFiles :: "string \<rightharpoonup> string"
  mediaArtDirectoriesHash :: "string \<rightharpoonup> string"

definition qWarning :: "string \<Rightarrow> scan \<Rightarrow> scan" where
  "qWarning msg st = st\<lparr>warnings := warnings st @ [msg]\<rparr>"

text \<open>\<^verbatim>\<open>std::unordered_map::insert\<close>: a key that is already there keeps its value.\<close>

definition insertNew :: "('k \<rightharpoonup> 'v) \<Rightarrow> 'k \<Rightarrow> 'v \<Rightarrow> ('k \<rightharpoonup> 'v)" where
  "insertNew m k v = (case m k of None \<Rightarrow> m(k \<mapsto> v) | Some _ \<Rightarrow> m)"

text \<open>A statement sent through the rescan connection.\<close>

definition execScan :: "Env \<Rightarrow> statement \<Rightarrow> scan \<Rightarrow> bool \<times> scan" where
  "execScan env q st = (let (ok, d) = exec (statementOk env) q (db st) in (ok, st\<lparr>db := d\<rparr>))"

section \<open>Writing a track into the store\<close>

text \<open>
  \<^verbatim>\<open>updateTrackInDatabase\<close> (line 84). \<open>forEachOrOnce\<close> lists the strings its lambda of the
  same name calls \<^verbatim>\<open>exec\<close> with, and \<open>bindValues\<close> the values the three nested calls bind,
  in order.
\<close>

definition forEachOrOnce :: "string list \<Rightarrow> string list" where
  "forEachOrOnce strings = (if strings = [] then [[]] else strings)"

definition sizeOrOne :: "string list \<Rightarrow> nat" where
  "sizeOrOne strings = (if strings = [] then 1 else length strings)"

definition bindValues :: "QFileInfo \<Rightarrow> Info \<Rightarrow> string \<Rightarrow> string list" where
  "bindValues fileInfo info mediaArt =
     concat (map (\<lambda>artist.
       concat (map (\<lambda>album.
         concat (map (\<lambda>genre.
           [filePath fileInfo, title info, emptyIfNull artist, emptyIfNull album,
            emptyIfNull (discNumber info), emptyIfNull genre, emptyIfNull mediaArt])
           (forEachOrOnce (genres info))))
         (forEachOrOnce (albums info))))
       (forEachOrOnce (artists info)))"

definition insertStatement :: "int \<Rightarrow> QFileInfo \<Rightarrow> Info \<Rightarrow> string \<Rightarrow> statement" where
  "insertStatement i fileInfo info mediaArt =
     (let count = sizeOrOne (artists info) * sizeOrOne (albums info) * sizeOrOne (genres info)
      in InsertTracks count i (lastModified fileInfo) (year info) (trackNumber info)
           (duration info) (bindValues fileInfo info mediaArt))"

definition updateTrackInDatabase ::
  "Env \<Rightarrow> bool \<Rightarrow> int \<Rightarrow> QFileInfo \<Rightarrow> Info \<Rightarrow> string \<Rightarrow> scan \<Rightarrow> scan" where
  "updateTrackInDatabase env inDb i fileInfo info mediaArt st =
     (let st1 =
        (if inDb
         then (let (ok, s) = execScan env (DeleteTrack i) st
               in if \<not> ok then qWarning ''failed to remove track from database'' s else s)
         else st);
          (ok, st2) = execScan env (insertStatement i fileInfo info mediaArt) st1
      in if \<not> ok then qWarning ''failed to insert track in the database'' st2 else st2)"

section \<open>Library directories, blacklist and no-media markers\<close>

text \<open>\<^verbatim>\<open>QStringList::removeDuplicates\<close> keeps the first of equal entries.\<close>

fun removeDuplicates :: "string list \<Rightarrow> string list" where
  "removeDuplicates [] = []"
| "removeDuplicates (x # xs) = x # removeDuplicates (filter (\<lambda>y. y \<noteq> x) xs)"

text \<open>The lambdas \<^verbatim>\<open>prepareDirs\<close> (line 367) and \<^verbatim>\<open>isBlacklisted\<close> (line 379).\<close>

definition prepareDirs :: "string list \<Rightarrow> string list" where
  "prepareDirs dirs =
     map (\<lambda>dir. if \<not> endsWith dir (CHR ''/'') then dir @ ''/'' else dir) (removeDuplicates dirs)"

definition isBlacklisted :: "string list \<Rightarrow> string \<Rightarrow> bool" where
  "isBlacklisted blacklistedDirs p = list_ex (\<lambda>directory. startsWith p directory) blacklistedDirs"

text \<open>The loop over \<^verbatim>\<open>libraryDirectories\<close> of lines 430 to 435: whether it finds a directory.\<close>

definition inLibrary :: "string list \<Rightarrow> string \<Rightarrow> bool" where
  "inLibrary libraryDirs p = list_ex (\<lambda>directory. startsWith p directory) libraryDirs"

text \<open>The lambda \<^verbatim>\<open>isNoMediaDirectory\<close> (line 389).\<close>

definition isNoMediaDirectory :: "string \<Rightarrow> scan \<Rightarrow> bool \<times> scan" where
  "isNoMediaDirectory directory st =
     (case noMediaDirectories st directory of
        Some found \<Rightarrow> (found, st)
      | None \<Rightarrow>
          (let noMedia = isFile (fileInfoOf (fs st) (directory @ ''/.nomedia''))
           in (noMedia,
               st\<lparr>noMediaDirectories := insertNew (noMediaDirectories st) directory noMedia\<rparr>)))"

section \<open>Media art\<close>

text \<open>\<^verbatim>\<open>LibraryUtils::findMediaArtForDirectory\<close> (line 238).\<close>

definition findMediaArtForDirectory :: "string \<Rightarrow> scan \<Rightarrow> string \<times> scan" where
  "findMediaArtForDirectory directoryPath st =
     (case mediaArtDirectoriesHash st directoryPath of
        Some found \<Rightarrow> (found, st)
      | None \<Rightarrow>
          (case filter matchesMediaArtName (entryList (fs st) directoryPath) of
             [] \<Rightarrow>
               ([], st\<lparr>mediaArtDirectoriesHash :=
                        insertNew (mediaArtDirectoriesHash st) directoryPath []\<rparr>)
           | name # _ \<Rightarrow>
               (let mediaArt = dirFilePath directoryPath name
                in (mediaArt, st\<lparr>mediaArtDirectoriesHash :=
                                  insertNew (mediaArtDirectoriesHash st) directoryPath mediaArt\<rparr>))))"

text \<open>\<^verbatim>\<open>LibraryUtils::saveEmbeddedMediaArt\<close> (line 926).\<close>

definition embeddedFilePath :: "string \<Rightarrow> string \<Rightarrow> string \<Rightarrow> string" where
  "embeddedFilePath dir hash sfx = dir @ ''/'' @ hash @ ''-embedded.'' @ sfx"

definition saveEmbeddedMediaArt :: "Env \<Rightarrow> LibraryUtils \<Rightarrow> QByteArray \<Rightarrow> scan \<Rightarrow> string \<times> scan" where
  "saveEmbeddedMediaArt env lu data st =
     (let hash = toHex (md5 env data)
      in case embeddedMediaArtFiles st hash of
           Some found \<Rightarrow> (found, st)
         | None \<Rightarrow>
             (let sfx = preferredSuffix env data
              in if sfx = [] then ([], st)
                 else
                   (let file = embeddedFilePath (mMediaArtDirectory lu) hash sfx
                    in if canOpenFile env file
                       then (file,
                             st\<lparr>fs := writeFile file (fs st),
                                written := written st @ [(file, data)],
                                embeddedMediaArtFiles :=
                                  insertNew (embeddedMediaArtFiles st) hash file\<rparr>)
                       else ([], st))))"

text \<open>\<^verbatim>\<open>LibraryUtils::getTrackMediaArt\<close> (line 902).\<close>

definition getTrackMediaArt ::
  "Env \<Rightarrow> LibraryUtils \<Rightarrow> QByteArray \<Rightarrow> QFileInfo \<Rightarrow> bool \<Rightarrow> scan \<Rightarrow> string \<times> scan" where
  "getTrackMediaArt env lu embeddedMediaArtData fileInfo preferDirectoriesMediaArt st =
     (if preferDirectoriesMediaArt
      then (let (mediaArt, st1) = findMediaArtForDirectory (path (filePath fileInfo)) st
            in if mediaArt = []
               then (if embeddedMediaArtData \<noteq> []
                     then saveEmbeddedMediaArt env lu embeddedMediaArtData st1
                     else (mediaArt, st1))
               else (mediaArt, st1))
      else (if embeddedMediaArtData = []
            then findMediaArtForDirectory (path (filePath fileInfo)) st
            else saveEmbeddedMediaArt env lu embeddedMediaArtData st))"

section \<open>The scan\<close>

definition mimeTypesExtensions :: "string list" where
  "mimeTypesExtensions =
     [''flac'', ''aac'', ''m4a'', ''f4a'', ''m4b'', ''f4b'', ''mp3'', ''mpga'', ''oga'', ''ogg'',
      ''opus'', ''ape'', ''mka'', ''wav'', ''wv'', ''wvp'']"

definition mimeTypesByContent :: "string list" where
  "mimeTypesByContent =
     [''audio/flac'', ''audio/mp4'', ''audio/x-m4b'', ''audio/mpeg'', ''audio/x-vorbis+ogg'',
      ''audio/x-flac+ogg'', ''audio/x-opus+ogg'', ''audio/x-ape'', ''application/x-matroska'',
      ''audio/x-wav'', ''audio/x-wavpack'']"

text \<open>
  Modelled from the spec: \<^verbatim>\<open>contains\<close> is declared in stdutils.h, which is not among the
  sources; it says whether a container holds a value.
\<close>

definition contains :: "'a list \<Rightarrow> 'a \<Rightarrow> bool" where
  "contains xs x = (x \<in> set xs)"

definition initialScan :: "QSqlDatabase \<Rightarrow> filesystem \<Rightarrow> scan" where
  "initialScan d fsys =
     \<lparr>db = d, fs = fsys, warnings = [], written = [], visited = 0,
      noMediaDirectories = Map.empty, files = Map.empty, lastId = - 1,
      modificationTimeHash = Map.empty, mediaArtHash = Map.empty,
      mediaArtExistanceHash = [], deletedMediaArtCount = 0, filesToRemove = [],
      embeddedMediaArtFiles = Map.empty, mediaArtDirectoriesHash = Map.empty\<rparr>"

text \<open>The body of the loop over the rows of the pre-scan index (lines 418 to 469).\<close>

definition loadTrack ::
  "string list \<Rightarrow> string list \<Rightarrow> int \<times> string \<times> int \<times> string \<Rightarrow> scan \<Rightarrow> scan" where
  "loadTrack libraryDirs blacklistedDirs row st =
     (case row of (i, fp, modificationTime, mediaArt) \<Rightarrow>
       (let fileInfo = fileInfoOf (fs st) fp;
            st1 = st\<lparr>lastId := i\<rparr>;
            (remove, st2) =
              (if \<not> exists fileInfo \<or> isDir fileInfo \<or> \<not> isReadable fileInfo then (True, st1)
               else if \<not> inLibrary libraryDirs fp then (True, st1)
               else if isBlacklisted blacklistedDirs fp then (True, st1)
               else isNoMediaDirectory (path fp) st1)
        in if remove then st2\<lparr>filesToRemove := filesToRemove st2 @ [i]\<rparr>
           else
             (let st3 = st2\<lparr>files := insertNew (files st2) fp i,
                            modificationTimeHash :=
                              insertNew (modificationTimeHash st2) i modificationTime\<rparr>
              in if mediaArt = []
                 then st3\<lparr>mediaArtHash := insertNew (mediaArtHash st3) i mediaArt\<rparr>
                 else
                   (case map_of (mediaArtExistanceHash st3) mediaArt of
                      None \<Rightarrow>
                        (if exists (fileInfoOf (fs st3) mediaArt)
                         then st3\<lparr>mediaArtExistanceHash :=
                                    mediaArtExistanceHash st3 @ [(mediaArt, True)],
                                  mediaArtHash := insertNew (mediaArtHash st3) i mediaArt\<rparr>
                         else st3\<lparr>mediaArtExistanceHash :=
                                    mediaArtExistanceHash st3 @ [(mediaArt, False)],
                                  deletedMediaArtCount := deletedMediaArtCount st3 + 1\<rparr>)
                    | Some found \<Rightarrow>
                        (if found
                         then st3\<lparr>mediaArtHash := insertNew (mediaArtHash st3) i mediaArt\<rparr>
                         else st3)))))"

text \<open>The loop itself, over the rows the \<^verbatim>\<open>SELECT\<close> of line 412 yields.\<close>

definition loadTracks :: "string list \<Rightarrow> string list \<Rightarrow> scan \<Rightarrow> scan" where
  "loadTracks libraryDirs blacklistedDirs st =
     foldl (\<lambda>s row. loadTrack libraryDirs blacklistedDirs row s) st
       (selectTracks (tracks (db st)))"

text \<open>The files already in the art directory under an embedded name (lines 472 to 481).\<close>

definition loadEmbeddedMediaArtFiles :: "LibraryUtils \<Rightarrow> scan \<Rightarrow> scan" where
  "loadEmbeddedMediaArtFiles lu st =
     st\<lparr>embeddedMediaArtFiles :=
          foldl (\<lambda>m p. let b = baseName p; index = indexOf b ''-embedded''
                       in insertNew m (left b index) p)
            Map.empty
            (filter (\<lambda>p. matchesEmbeddedWildcard (fileName p))
               (entryFiles (fs st) (mMediaArtDirectory lu)))\<rparr>"

text \<open>
  The three cases of the body of the walk (lines 496 to 611) for a readable regular file:
  not in the pre-scan index, in it and unchanged, in it and changed. (Where the
  \<^verbatim>\<open>UPDATE\<close> of an unchanged file fails the program writes the error alone; the model
  writes a warning that names the statement.)
\<close>

definition processNewFile ::
  "Env \<Rightarrow> LibraryUtils \<Rightarrow> string list \<Rightarrow> bool \<Rightarrow> QFileInfo \<Rightarrow> scan \<Rightarrow> scan" where
  "processNewFile env lu blacklistedDirs prefer fileInfo st =
     (let (noMedia, st1) = isNoMediaDirectory (path (filePath fileInfo)) st
      in if noMedia then st1
         else if isBlacklisted blacklistedDirs (filePath fileInfo) then st1
         else if contains mimeTypesExtensions (fileSuffix (filePath fileInfo))
         then (let mimeType = mimeTypeForFile fileInfo
               in if contains mimeTypesByContent mimeType
                  then (let trackInfo = getTrackInfo fileInfo mimeType;
                            st2 = st1\<lparr>lastId := lastId st1 + 1\<rparr>;
                            (mediaArt, st3) =
                              getTrackMediaArt env lu (mediaArtData trackInfo) fileInfo prefer st2
                        in updateTrackInDatabase env False (lastId st2) fileInfo trackInfo
                             mediaArt st3)
                  else st1)
         else st1)"

definition processUnchangedFile ::
  "Env \<Rightarrow> LibraryUtils \<Rightarrow> bool \<Rightarrow> QFileInfo \<Rightarrow> int \<Rightarrow> scan \<Rightarrow> scan" where
  "processUnchangedFile env lu prefer fileInfo i st =
     (let (mediaArt, deleted) =
            (case mediaArtHash st i of None \<Rightarrow> ([], True) | Some found \<Rightarrow> (found, False));
          embeddedOrManual = startsWith mediaArt (mMediaArtDirectory lu);
          embedded = (embeddedOrManual \<and> containsStr mediaArt ''-embedded'');
          manual = (embeddedOrManual \<and> \<not> embedded)
      in if manual then st
         else if \<not> embedded \<or> prefer
         then (let data =
                     (if (\<not> deleted \<and> mediaArt = []) \<or> embedded then []
                      else mediaArtData (getTrackInfo fileInfo (mimeTypeForFile fileInfo)));
                   (newMediaArt, st1) = getTrackMediaArt env lu data fileInfo prefer st
               in if \<not> (embedded \<and> newMediaArt = []) \<and> newMediaArt \<noteq> mediaArt
                  then (let (ok, st2) = execScan env (UpdateMediaArt (emptyIfNull newMediaArt) i) st1
                        in if \<not> ok then qWarning ''failed to update media art'' st2 else st2)
                  else st1)
         else st)"

definition processChangedFile ::
  "Env \<Rightarrow> LibraryUtils \<Rightarrow> bool \<Rightarrow> QFileInfo \<Rightarrow> int \<Rightarrow> scan \<Rightarrow> scan" where
  "processChangedFile env lu prefer fileInfo i st =
     (let mimeType = mimeTypeForFile fileInfo
      in if contains mimeTypesByContent mimeType
         then (let trackInfo = getTrackInfo fileInfo mimeType;
                   (mediaArt, st1) =
                     getTrackMediaArt env lu (mediaArtData trackInfo) fileInfo prefer st
               in updateTrackInDatabase env True i fileInfo trackInfo mediaArt st1)
         else st\<lparr>filesToRemove := filesToRemove st @ [i]\<rparr>)"

text \<open>\<^verbatim>\<open>modificationTimeHash[id]\<close>: a key that is missing is entered with the value 0.\<close>

definition modificationTimeAt :: "int \<Rightarrow> scan \<Rightarrow> int \<times> scan" where
  "modificationTimeAt i st =
     (case modificationTimeHash st i of
        Some t \<Rightarrow> (t, st)
      | None \<Rightarrow> (0, st\<lparr>modificationTimeHash := (modificationTimeHash st)(i \<mapsto> 0)\<rparr>))"

definition processFile ::
  "Env \<Rightarrow> LibraryUtils \<Rightarrow> string list \<Rightarrow> bool \<Rightarrow> string \<times> fnode \<Rightarrow> scan \<Rightarrow> scan" where
  "processFile env lu blacklistedDirs prefer entry st =
     (let fileInfo = \<lparr>filePath = fst entry, fileNode = Some (snd entry)\<rparr>
      in if isDir fileInfo then st
         else if \<not> isReadable fileInfo then st
         else
           (case files st (filePath fileInfo) of
              None \<Rightarrow> processNewFile env lu blacklistedDirs prefer fileInfo st
            | Some i \<Rightarrow>
                (let (stored, st1) = modificationTimeAt i st
                 in if lastModified fileInfo = stored
                    then processUnchangedFile env lu prefer fileInfo i st1
                    else processChangedFile env lu prefer fileInfo i st1)))"

text \<open>
  What the directory iterator of a library directory yields: every entry below it. The
  entries are those present when the walk of the directory starts; symbolic links and
  hidden entries are not modelled. Before each entry the worker looks whether the
  application is still there, and stops if it is not.
\<close>

definition iteratorEntries :: "filesystem \<Rightarrow> string \<Rightarrow> (string \<times> fnode) list" where
  "iteratorEntries fsys topLevelDirectory =
     filter (\<lambda>e. startsWith (fst e) topLevelDirectory \<and>
                  length topLevelDirectory < length (fst e)) fsys"

fun walkEntries ::
  "Env \<Rightarrow> LibraryUtils \<Rightarrow> string list \<Rightarrow> bool \<Rightarrow> (string \<times> fnode) list \<Rightarrow> scan \<Rightarrow> bool \<times> scan"
  where
  "walkEntries env lu blacklistedDirs prefer [] st = (True, st)"
| "walkEntries env lu blacklistedDirs prefer (e # es) st =
     (if \<not> appRunning env (visited st)
      then (False, qWarning ''app shutdown, stop updating'' st)
      else walkEntries env lu blacklistedDirs prefer es
             (processFile env lu blacklistedDirs prefer e (st\<lparr>visited := Suc (visited st)\<rparr>)))"

fun walkDirectories ::
  "Env \<Rightarrow> LibraryUtils \<Rightarrow> string list \<Rightarrow> bool \<Rightarrow> string list \<Rightarrow> scan \<Rightarrow> bool \<times> scan" where
  "walkDirectories env lu blacklistedDirs prefer [] st = (True, st)"
| "walkDirectories env lu blacklistedDirs prefer (d # ds) st =
     (let (continue, st1) =
            walkEntries env lu blacklistedDirs prefer (iteratorEntries (fs st) d) st
      in if continue then walkDirectories env lu blacklistedDirs prefer ds st1
         else (False, st1))"

text \<open>After the walk: the marked tracks are deleted (lines 615 to 628).\<close>

definition removeFiles :: "Env \<Rightarrow> scan \<Rightarrow> scan" where
  "removeFiles env st =
     (if filesToRemove st \<noteq> []
      then (let (ok, st1) = execScan env (DeleteTracks (filesToRemove st)) st
            in if \<not> ok then qWarning ''failed to remove files from database'' st1 else st1)
      else st)"

text \<open>
  Art that is stored but no longer on disk is cleared, at most 999 paths in one statement
  (lines 630 to 666).
\<close>

abbreviation maxParametersCount :: nat where
  "maxParametersCount \<equiv> 999"

fun clearMediaArt :: "Env \<Rightarrow> string list \<Rightarrow> scan \<Rightarrow> scan" where
  "clearMediaArt env deletedMediaArt st =
     (if deletedMediaArt = [] then st
      else
        (let (ok, st1) = execScan env (ClearMediaArt (take maxParametersCount deletedMediaArt)) st;
             st2 = (if \<not> ok then qWarning ''failed to remove media art from database'' st1
                    else st1)
         in clearMediaArt env (drop maxParametersCount deletedMediaArt) st2))"

definition removeDeletedMediaArt :: "Env \<Rightarrow> scan \<Rightarrow> scan" where
  "removeDeletedMediaArt env st =
     (if deletedMediaArtCount st > 0
      then clearMediaArt env (map fst (filter (\<lambda>e. \<not> snd e) (mediaArtExistanceHash st))) st
      else st)"

text \<open>
  The art still stored is read back (lines 668 to 682), and every file of the art
  directory that is not among it is removed (lines 684 to 693).
\<close>

definition readAllMediaArt :: "Env \<Rightarrow> scan \<Rightarrow> string list \<times> scan" where
  "readAllMediaArt env st =
     (let (ok, st1) = execScan env SelectMediaArt st
      in (if ok then selectMediaArt (tracks (db st1)) else [], st1))"

fun removeUnusedMediaArt :: "Env \<Rightarrow> string list \<Rightarrow> string list \<Rightarrow> scan \<Rightarrow> scan" where
  "removeUnusedMediaArt env allMediaArt [] st = st"
| "removeUnusedMediaArt env allMediaArt (p # ps) st =
     removeUnusedMediaArt env allMediaArt ps
       (if \<not> contains allMediaArt p
        then (if \<not> canRemoveFile env p then qWarning ''failed to remove file'' st
              else st\<lparr>fs := removeFile p (fs st)\<rparr>)
        else st)"

text \<open>\<^verbatim>\<open>QDir().mkpath\<close>: the directory is there afterwards.\<close>

definition directoryNode :: fnode where
  "directoryNode = \<lparr>nodeIsDir = True, nodeIsReadable = True, nodeLastModified = 0,
     nodeMimeType = [], nodeTrackInfo = emptyInfo\<rparr>"

definition mkpath :: "string \<Rightarrow> filesystem \<Rightarrow> filesystem" where
  "mkpath p fsys = (if p \<in> set (map fst fsys) then fsys else fsys @ [(p, directoryNode)])"

text \<open>
  The worker of \<^verbatim>\<open>LibraryUtils::updateDatabase\<close> (lines 347 to 699). All statements run in
  one transaction that is committed at the end and when the walk is stopped; when the
  pre-scan index cannot be read the worker returns before any statement has changed a row.
\<close>

definition rescan :: "Env \<Rightarrow> LibraryUtils \<Rightarrow> QSqlDatabase \<Rightarrow> filesystem \<Rightarrow> scan" where
  "rescan env lu d fsys =
     (let st0 = initialScan d fsys
      in if \<not> canOpenDatabase env then qWarning ''failed to open database'' st0
         else
           (let st1 = (if \<not> canMakePath env
                       then qWarning ''failed to create media art directory'' st0
                       else st0\<lparr>fs := mkpath (mMediaArtDirectory lu) (fs st0)\<rparr>);
                libraryDirs = prepareDirs (libraryDirectories (settings env));
                blacklistedDirs = prepareDirs (blacklistedDirectories (settings env));
                (ok, st2) = execScan env SelectTracks st1
            in if \<not> ok then qWarning ''failed to get files from database'' st2
               else
                 (let st3 = loadTracks libraryDirs blacklistedDirs st2;
                      st4 = loadEmbeddedMediaArtFiles lu st3;
                      prefer = useDirectoryMediaArt (settings env);
                      (continue, st5) = walkDirectories env lu blacklistedDirs prefer libraryDirs st4
                  in if \<not> continue then st5
                     else
                       (let st6 = removeFiles env st5;
                            st7 = removeDeletedMediaArt env st6;
                            (allMediaArt, st8) = readAllMediaArt env st7
                        in removeUnusedMediaArt env allMediaArt
                             (entryFiles (fs st8) (mMediaArtDirectory lu)) st8))))"

text \<open>
  \<^verbatim>\<open>LibraryUtils::updateDatabase\<close> (line 338): nothing happens while a scan is running;
  otherwise the worker runs, and the store and the file system are as it leaves them.
\<close>

definition updateDatabase ::
  "Env \<Rightarrow> LibraryUtils \<Rightarrow> QSqlDatabase \<Rightarrow> filesystem \<Rightarrow> QSqlDatabase \<times> filesystem" where
  "updateDatabase env lu d fsys =
     (if mUpdating lu then (d, fsys)
      else (let st = rescan env lu d fsys in (db st, fs st)))"

section \<open>Queries on the index\<close>

text \<open>
  The eight read-only operations (lines 737 to 858), on the default connection; \<open>ok\<close> says
  which of its statements can be executed. The columns \<^verbatim>\<open>artist\<close> and \<^verbatim>\<open>album\<close> are
  declared \<^verbatim>\<open>COLLATE NOCASE\<close>: their values are compared without regard to the case of
  ASCII letters. The counts count every value; a \<^verbatim>\<open>NULL\<close>, which \<^verbatim>\<open>COUNT\<close> skips, is
  not told apart from the empty string in this model. The random pick takes a number
  \<open>rnd\<close> from outside.
\<close>

definition nocase :: "string \<Rightarrow> string" where
  "nocase s = map toLower s"

definition artistsCount :: "(nat \<Rightarrow> bool) \<Rightarrow> LibraryUtils \<Rightarrow> QSqlDatabase \<Rightarrow> int \<times> QSqlDatabase" where
  "artistsCount ok lu d =
     (if \<not> mDatabaseInitialized lu then (0, d)
      else (let (next, d1) = exec ok CountArtists d
            in if next
               then (toInt (int (length (remdups (map (\<lambda>r. nocase (row_artist r)) (tracks d1))))), d1)
               else (0, d1)))"

definition albumsCount :: "(nat \<Rightarrow> bool) \<Rightarrow> LibraryUtils \<Rightarrow> QSqlDatabase \<Rightarrow> int \<times> QSqlDatabase" where
  "albumsCount ok lu d =
     (if \<not> mDatabaseInitialized lu then (0, d)
      else (let (next, d1) = exec ok CountAlbums d
            in if next
               then (toInt (int (length (remdups (map (\<lambda>r. nocase (row_album r)) (tracks d1))))), d1)
               else (0, d1)))"

definition tracksCount :: "(nat \<Rightarrow> bool) \<Rightarrow> LibraryUtils \<Rightarrow> QSqlDatabase \<Rightarrow> int \<times> QSqlDatabase" where
  "tracksCount ok lu d =
     (if \<not> mDatabaseInitialized lu then (0, d)
      else (let (next, d1) = exec ok CountTracks d
            in if next then (toInt (int (length (remdups (map row_id (tracks d1))))), d1)
               else (0, d1)))"

definition groupDurations :: "track list \<Rightarrow> int list" where
  "groupDurations rs = map (\<lambda>i. row_duration (groupRow rs i)) (groupIds rs)"

definition tracksDuration :: "(nat \<Rightarrow> bool) \<Rightarrow> LibraryUtils \<Rightarrow> QSqlDatabase \<Rightarrow> int \<times> QSqlDatabase" where
  "tracksDuration ok lu d =
     (if \<not> mDatabaseInitialized lu then (0, d)
      else (let (next, d1) = exec ok SumDuration d
            in if next then (toInt (sum_list (groupDurations (tracks d1))), d1)
               else (0, d1)))"

definition pickMediaArt :: "nat \<Rightarrow> track list \<Rightarrow> string" where
  "pickMediaArt rnd rs =
     (let arts = remdups (filter (\<lambda>a. a \<noteq> []) (map row_mediaArt rs))
      in if arts = [] then [] else arts ! (rnd mod length arts))"

definition randomMediaArt ::
  "(nat \<Rightarrow> bool) \<Rightarrow> nat \<Rightarrow> LibraryUtils \<Rightarrow> QSqlDatabase \<Rightarrow> string \<times> QSqlDatabase" where
  "randomMediaArt ok rnd lu d =
     (if \<not> mDatabaseInitialized lu then ([], d)
      else (let (next, d1) = exec ok RandomMediaArt d
            in if next then (pickMediaArt rnd (tracks d1), d1) else ([], d1)))"

definition randomMediaArtForArtist ::
  "(nat \<Rightarrow> bool) \<Rightarrow> nat \<Rightarrow> LibraryUtils \<Rightarrow> string \<Rightarrow> QSqlDatabase \<Rightarrow> string \<times> QSqlDatabase" where
  "randomMediaArtForArtist ok rnd lu artist d =
     (if \<not> mDatabaseInitialized lu then ([], d)
      else (let (next, d1) = exec ok (RandomMediaArtForArtist artist) d
            in if next
               then (pickMediaArt rnd
                       (filter (\<lambda>r. nocase (row_artist r) = nocase artist) (tracks d1)), d1)
               else ([], d1)))"

definition randomMediaArtForAlbum ::
  "(nat \<Rightarrow> bool) \<Rightarrow> nat \<Rightarrow> LibraryUtils \<Rightarrow> string \<Rightarrow> string \<Rightarrow> QSqlDatabase
     \<Rightarrow> string \<times> QSqlDatabase" where
  "randomMediaArtForAlbum ok rnd lu artist album d =
     (if \<not> mDatabaseInitialized lu then ([], d)
      else (let (next, d1) = exec ok (RandomMediaArtForAlbum artist album) d
            in if next
               then (pickMediaArt rnd
                       (filter (\<lambda>r. nocase (row_artist r) = nocase artist \<and>
                                     nocase (row_album r) = nocase album) (tracks d1)), d1)
               else ([], d1)))"

definition randomMediaArtForGenre ::
  "(nat \<Rightarrow> bool) \<Rightarrow> nat \<Rightarrow> LibraryUtils \<Rightarrow> string \<Rightarrow> QSqlDatabase \<Rightarrow> string \<times> QSqlDatabase" where
  "randomMediaArtForGenre ok rnd lu genre d =
     (if \<not> mDatabaseInitialized lu then ([], d)
      else (let (next, d1) = exec ok (RandomMediaArtForGenre genre) d
            in if next
               then (pickMediaArt rnd (filter (\<lambda>r. row_genre r = genre) (tracks d1)), d1)
               else ([], d1)))"

section \<open>Notions of the specification and example data\<close>

text \<open>
  The rows the specification expects for one file: one for every element of the cartesian
  product of its artists, albums and genres, an empty list counting as the one empty
  string. This definition follows the words of the specification; the program's rows are
  those of \<open>valuesRows\<close> and \<open>bindValues\<close>.
\<close>

definition cartesianRows :: "int \<Rightarrow> QFileInfo \<Rightarrow> Info \<Rightarrow> string \<Rightarrow> track list" where
  "cartesianRows i fileInfo info mediaArt =
     map (\<lambda>t. \<lparr>row_id = i, row_filePath = filePath fileInfo,
               row_modificationTime = lastModified fileInfo, row_title = title info,
               row_artist = fst t, row_album = fst (snd t), row_year = year info,
               row_trackNumber = trackNumber info, row_discNumber = discNumber info,
               row_genre = snd (snd t), row_duration = duration info, row_mediaArt = mediaArt\<rparr>)
       (List.product (forEachOrOnce (artists info))
          (List.product (forEachOrOnce (albums info)) (forEachOrOnce (genres info))))"

text \<open>
  Example data: a library object whose store is not initialised, an environment in which
  nothing fails, and a row.
\<close>

definition exampleLibrary :: LibraryUtils where
  "exampleLibrary = \<lparr>mDatabaseInitialized = False, mCreatedTable = False, mUpdating = False,
     mDatabaseFilePath = ''/d/library.sqlite'', mMediaArtDirectory = ''/c/media-art''\<rparr>"

definition exampleEnv :: Env where
  "exampleEnv = \<lparr>settings = \<lparr>libraryDirectories = [''/m''], blacklistedDirectories = [],
                              useDirectoryMediaArt = False\<rparr>,
     md5 = (\<lambda>data. data), preferredSuffix = (\<lambda>data. ''jpg''),
     canOpenFile = (\<lambda>p. True), canRemoveFile = (\<lambda>p. True), canOpenDatabase = True,
     canMakePath = True, statementOk = (\<lambda>n. True), appRunning = (\<lambda>n. True)\<rparr>"

definition exampleRow :: track where
  "exampleRow = \<lparr>row_id = 0, row_filePath = ''/m/song.mp3'', row_modificationTime = 5,
     row_title = ''T'', row_artist = ''A'', row_album = ''Alb'', row_year = 2000,
     row_trackNumber = 1, row_discNumber = [], row_genre = ''X'', row_duration = 120,
     row_mediaArt = ''/m/folder.jpg''\<rparr>"

text \<open>
  The image beside the files of a directory, in the words of the specification: the first
  readable file of the directory whose name matches the pattern, or the empty string.
  The program's lookup is \<open>findMediaArtForDirectory\<close>, which remembers its answers.
\<close>

definition directoryMediaArt :: "filesystem \<Rightarrow> string \<Rightarrow> string" where
  "directoryMediaArt fsys dir =
     (case filter matchesMediaArtName (entryList fsys dir) of
        [] \<Rightarrow> []
      | name # _ \<Rightarrow> dirFilePath dir name)"

text \<open>More example data: a library directory with one song and an image beside it.\<close>

definition songInfo :: Info where
  "songInfo = \<lparr>title = ''T'', artists = [''A''], albums = [''Alb''], genres = [], year = 0,
     trackNumber = 0, discNumber = [], duration = 120, mediaArtData = []\<rparr>"

definition songNode :: fnode where
  "songNode = \<lparr>nodeIsDir = False, nodeIsReadable = True, nodeLastModified = 5,
     nodeMimeType = ''audio/mpeg'', nodeTrackInfo = songInfo\<rparr>"

definition exampleFiles :: filesystem where
  "exampleFiles =
     [(''/m'', directoryNode),
      (''/m/song.mp3'', songNode),
      (''/m/folder.jpg'', writtenFile)]"

definition emptyStore :: QSqlDatabase where
  "emptyStore = \<lparr>tracks = [], executed = []\<rparr>"



text \<open>
  The state of a scan of an index with the given rows and of the given files when the walk
  starts, for the library directory of the example.
\<close>

definition exampleWalkStart :: "track list \<Rightarrow> filesystem \<Rightarrow> scan" where
  "exampleWalkStart rs fsys =
     loadEmbeddedMediaArtFiles exampleLibrary
       (loadTracks [''/m/''] [] (initialScan \<lparr>tracks = rs, executed = [(SelectTracks, True)]\<rparr> fsys))"

definition exampleEnvNoSuffix :: Env where
  "exampleEnvNoSuffix = exampleEnv\<lparr>preferredSuffix := (\<lambda>data. [])\<rparr>"

text \<open>The song with embedded art, and an environment whose third statement fails.\<close>

definition songNodeEmbedded :: fnode where
  "songNodeEmbedded = songNode\<lparr>nodeTrackInfo := songInfo\<lparr>mediaArtData := [1]\<rparr>\<rparr>"

definition exampleFilesEmbedded :: filesystem where
  "exampleFilesEmbedded =
     [(''/m'', directoryNode),
      (''/m/song.mp3'', songNodeEmbedded),
      (''/m/folder.jpg'', writtenFile)]"


section \<open>Properties of the program\<close>

subsection \<open>Strings and statements\<close>

lemma emptyIfNull_id: "emptyIfNull s = s"
  by (simp add: emptyIfNull_def isNull_def)





subsection \<open>The rows of one file\<close>

lemma length_forEachOrOnce: "length (forEachOrOnce xs) = sizeOrOne xs"
  by (simp add: forEachOrOnce_def sizeOrOne_def)

lemma valuesRows_concat:
  "valuesRows i m y n d (concat (map (\<lambda>t. [a t, b t, c t, e t, f t, g t, h t]) xs)) =
   map (\<lambda>t. \<lparr>row_id = i, row_filePath = a t, row_modificationTime = m, row_title = b t,
      row_artist = c t, row_album = e t, row_year = y, row_trackNumber = n,
      row_discNumber = f t, row_genre = g t, row_duration = d, row_mediaArt = h t\<rparr>) xs"
  by (induction xs) simp_all

lemma length_concat_const:
  "(\<And>x. length (f x) = k) \<Longrightarrow> length (concat (map f xs)) = k * length xs"
  by (induction xs) simp_all

lemma concat_map_product:
  "concat (map (\<lambda>x. concat (map (\<lambda>y. f x y) ys)) xs) =
   concat (map (\<lambda>t. f (fst t) (snd t)) (List.product xs ys))"
  by (induction xs) (simp_all add: comp_def)

lemma bindValues_product:
  "bindValues fileInfo info mediaArt =
   concat (map (\<lambda>t. [filePath fileInfo, title info, fst t, fst (snd t), discNumber info,
                      snd (snd t), mediaArt])
     (List.product (forEachOrOnce (artists info))
        (List.product (forEachOrOnce (albums info)) (forEachOrOnce (genres info)))))"
  by (simp add: bindValues_def emptyIfNull_id concat_map_product)

lemma length_bindValues:
  "length (bindValues fileInfo info mediaArt) =
   7 * (sizeOrOne (artists info) * sizeOrOne (albums info) * sizeOrOne (genres info))"
  unfolding bindValues_product
  by (subst length_concat_const [where k = 7]) (simp_all add: length_forEachOrOnce mult.assoc)

lemma valuesRows_bindValues:
  "valuesRows i (lastModified fileInfo) (year info) (trackNumber info) (duration info)
     (bindValues fileInfo info mediaArt) = cartesianRows i fileInfo info mediaArt"
  unfolding bindValues_product cartesianRows_def by (rule valuesRows_concat)

lemma runStatement_insert:
  "runStatement (insertStatement i fileInfo info mediaArt) rs =
   Some (rs @ cartesianRows i fileInfo info mediaArt)"
  by (simp add: insertStatement_def length_bindValues valuesRows_bindValues)



subsection \<open>Library directories and the blacklist\<close>











subsection \<open>Queries on a store that is not initialised\<close>

text \<open>
  Claim C10. When the store was not initialised, each of the eight read-only operations
  answers 0 or the empty string and sends no statement: the connection, with the list of
  the statements sent through it, is as before.
\<close>

theorem queries_need_initialized_database:
  assumes "\<not> mDatabaseInitialized lu"
  shows "artistsCount ok lu d = (0, d) \<and> albumsCount ok lu d = (0, d) \<and>
         tracksCount ok lu d = (0, d) \<and> tracksDuration ok lu d = (0, d) \<and>
         randomMediaArt ok rnd lu d = ([], d) \<and>
         randomMediaArtForArtist ok rnd lu artist d = ([], d) \<and>
         randomMediaArtForAlbum ok rnd lu artist album d = ([], d) \<and>
         randomMediaArtForGenre ok rnd lu genre d = ([], d)"
  using assms
  by (simp add: artistsCount_def albumsCount_def tracksCount_def tracksDuration_def
      randomMediaArt_def randomMediaArtForArtist_def randomMediaArtForAlbum_def
      randomMediaArtForGenre_def)

theorem queries_need_initialized_database_witness:
  "\<not> mDatabaseInitialized exampleLibrary \<and>
   tracksCount (\<lambda>n. True) exampleLibrary \<lparr>tracks = [exampleRow], executed = []\<rparr>
     = (0, \<lparr>tracks = [exampleRow], executed = []\<rparr>) \<and>
   randomMediaArt (\<lambda>n. True) 0 exampleLibrary \<lparr>tracks = [exampleRow], executed = []\<rparr>
     = ([], \<lparr>tracks = [exampleRow], executed = []\<rparr>) \<and>
   tracksCount (\<lambda>n. True) (exampleLibrary\<lparr>mDatabaseInitialized := True\<rparr>)
       \<lparr>tracks = [exampleRow], executed = []\<rparr>
     = (1, \<lparr>tracks = [exampleRow], executed = [(CountTracks, True)]\<rparr>) \<and>
   fst (randomMediaArt (\<lambda>n. True) 0 (exampleLibrary\<lparr>mDatabaseInitialized := True\<rparr>)
          \<lparr>tracks = [exampleRow], executed = []\<rparr>) = ''/m/folder.jpg''"
  using queries_need_initialized_database
    [of exampleLibrary "\<lambda>n. True" "\<lparr>tracks = [exampleRow], executed = []\<rparr>" 0]
  by (simp add: exampleLibrary_def tracksCount_def randomMediaArt_def exec_def
      pickMediaArt_def exampleRow_def toInt_def)

subsection \<open>Which art a track gets\<close>

lemma findMediaArtForDirectory_fst:
  assumes "\<forall>d a. mediaArtDirectoriesHash st d = Some a \<longrightarrow> a = directoryMediaArt (fs st) d"
  shows "fst (findMediaArtForDirectory dir st) = directoryMediaArt (fs st) dir"
  using assms
  by (auto simp: findMediaArtForDirectory_def directoryMediaArt_def Let_def
      split: option.splits list.splits)

lemma findMediaArtForDirectory_embedded:
  "embeddedMediaArtFiles (snd (findMediaArtForDirectory dir st)) = embeddedMediaArtFiles st"
  by (simp add: findMediaArtForDirectory_def Let_def split: option.splits list.splits)

lemma saveEmbeddedMediaArt_known:
  "embeddedMediaArtFiles s (toHex (md5 env data)) = Some p \<Longrightarrow>
   saveEmbeddedMediaArt env lu data s = (p, s)"
  by (simp add: saveEmbeddedMediaArt_def)

lemma saveEmbeddedMediaArt_new:
  "embeddedMediaArtFiles s (toHex (md5 env data)) = None \<Longrightarrow>
   fst (saveEmbeddedMediaArt env lu data s) =
     (if preferredSuffix env data \<noteq> [] \<and>
         canOpenFile env (embeddedFilePath (mMediaArtDirectory lu) (toHex (md5 env data))
                            (preferredSuffix env data))
      then embeddedFilePath (mMediaArtDirectory lu) (toHex (md5 env data))
             (preferredSuffix env data)
      else [])"
  by (simp add: saveEmbeddedMediaArt_def Let_def)

text \<open>
  Claim C2, as amended. Let the answers remembered for directories agree with the file
  system (they do at the start of a scan, when none is remembered). With
  \<open>preferDirectoriesMediaArt\<close> the art of a track is the image of its directory when there
  is one, whatever is embedded; when there is none and bytes are embedded, it is what
  \<open>saveEmbeddedMediaArt\<close> answers for the bytes. Without the preference, embedded bytes go
  to \<open>saveEmbeddedMediaArt\<close>, whatever the directory holds, and a track without embedded
  bytes gets the image of its directory. The answer of \<open>saveEmbeddedMediaArt\<close> is the file
  already known for the digest of the bytes, else the new file in the art directory when the
  type of the bytes has a suffix and the file can be opened, else the empty string.
\<close>

theorem media_art_precedence:
  assumes "\<forall>d a. mediaArtDirectoriesHash st d = Some a \<longrightarrow> a = directoryMediaArt (fs st) d"
  shows "(directoryMediaArt (fs st) (path (filePath fileInfo)) \<noteq> [] \<longrightarrow>
            fst (getTrackMediaArt env lu data fileInfo True st) =
              directoryMediaArt (fs st) (path (filePath fileInfo))) \<and>
         (directoryMediaArt (fs st) (path (filePath fileInfo)) = [] \<and> data \<noteq> [] \<longrightarrow>
            getTrackMediaArt env lu data fileInfo True st =
              saveEmbeddedMediaArt env lu data
                (snd (findMediaArtForDirectory (path (filePath fileInfo)) st))) \<and>
         (data \<noteq> [] \<longrightarrow>
            getTrackMediaArt env lu data fileInfo False st = saveEmbeddedMediaArt env lu data st) \<and>
         (data = [] \<longrightarrow>
            fst (getTrackMediaArt env lu data fileInfo False st) =
              directoryMediaArt (fs st) (path (filePath fileInfo))) \<and>
         embeddedMediaArtFiles (snd (findMediaArtForDirectory (path (filePath fileInfo)) st)) =
           embeddedMediaArtFiles st \<and>
         (\<forall>s p. embeddedMediaArtFiles s (toHex (md5 env data)) = Some p \<longrightarrow>
            fst (saveEmbeddedMediaArt env lu data s) = p) \<and>
         (\<forall>s. embeddedMediaArtFiles s (toHex (md5 env data)) = None \<longrightarrow>
            fst (saveEmbeddedMediaArt env lu data s) =
              (if preferredSuffix env data \<noteq> [] \<and>
                  canOpenFile env (embeddedFilePath (mMediaArtDirectory lu)
                                     (toHex (md5 env data)) (preferredSuffix env data))
               then embeddedFilePath (mMediaArtDirectory lu) (toHex (md5 env data))
                      (preferredSuffix env data)
               else []))"
proof -
  let ?dir = "path (filePath fileInfo)"
  have found: "fst (findMediaArtForDirectory ?dir st) = directoryMediaArt (fs st) ?dir"
    using assms by (rule findMediaArtForDirectory_fst)
  have a: "directoryMediaArt (fs st) ?dir \<noteq> [] \<longrightarrow>
      fst (getTrackMediaArt env lu data fileInfo True st) = directoryMediaArt (fs st) ?dir"
    using found by (simp add: getTrackMediaArt_def split_beta)
  have b: "directoryMediaArt (fs st) ?dir = [] \<and> data \<noteq> [] \<longrightarrow>
      getTrackMediaArt env lu data fileInfo True st =
        saveEmbeddedMediaArt env lu data (snd (findMediaArtForDirectory ?dir st))"
    using found by (simp add: getTrackMediaArt_def split_beta)
  have c: "data \<noteq> [] \<longrightarrow>
      getTrackMediaArt env lu data fileInfo False st = saveEmbeddedMediaArt env lu data st"
    by (simp add: getTrackMediaArt_def)
  have d: "data = [] \<longrightarrow>
      fst (getTrackMediaArt env lu data fileInfo False st) = directoryMediaArt (fs st) ?dir"
    using found by (simp add: getTrackMediaArt_def)
  have e: "\<forall>s p. embeddedMediaArtFiles s (toHex (md5 env data)) = Some p \<longrightarrow>
      fst (saveEmbeddedMediaArt env lu data s) = p"
    by (simp add: saveEmbeddedMediaArt_known)
  show ?thesis
    using a b c d e findMediaArtForDirectory_embedded [of ?dir st]
      saveEmbeddedMediaArt_new [of _ env data lu]
    by blast
qed

lemma exampleFiles_art: "directoryMediaArt exampleFiles ''/m'' = ''/m/folder.jpg''"
  by code_simp

lemma path_song: "path ''/m/song.mp3'' = ''/m''"
  by code_simp

theorem media_art_precedence_witness:
  "mediaArtDirectoriesHash (initialScan emptyStore exampleFiles) = Map.empty \<and>
   directoryMediaArt exampleFiles ''/m'' = ''/m/folder.jpg'' \<and>
   fst (getTrackMediaArt exampleEnv exampleLibrary [1]
          \<lparr>filePath = ''/m/song.mp3'', fileNode = Some songNode\<rparr>
          True (initialScan emptyStore exampleFiles)) = ''/m/folder.jpg'' \<and>
   fst (getTrackMediaArt exampleEnv exampleLibrary [1]
          \<lparr>filePath = ''/m/song.mp3'', fileNode = Some songNode\<rparr>
          False (initialScan emptyStore exampleFiles)) = ''/c/media-art/01-embedded.jpg''"
proof -
  have h: "\<forall>d a. mediaArtDirectoriesHash (initialScan emptyStore exampleFiles) d = Some a \<longrightarrow>
       a = directoryMediaArt (fs (initialScan emptyStore exampleFiles)) d"
    by (simp add: initialScan_def)
  have s: "fst (saveEmbeddedMediaArt exampleEnv exampleLibrary [1]
                  (initialScan emptyStore exampleFiles))
      = ''/c/media-art/01-embedded.jpg''"
    by code_simp
  have f: "fs (initialScan emptyStore exampleFiles) = exampleFiles"
    by (simp add: initialScan_def)
  have e: "mediaArtDirectoriesHash (initialScan emptyStore exampleFiles) = Map.empty"
    by (simp add: initialScan_def)
  show ?thesis
    using media_art_precedence [OF h, of "\<lparr>filePath = ''/m/song.mp3'', fileNode = Some songNode\<rparr>"
        exampleEnv exampleLibrary "[1]"]
    by (simp add: path_song s f e exampleFiles_art)
qed

text \<open>
  Claim C2 as it is written fails: a track with an image beside it and embedded bytes whose
  type has no suffix gets no art at all when the directory is not preferred.
\<close>

theorem media_art_precedence_counterexample:
  "directoryMediaArt exampleFiles ''/m'' = ''/m/folder.jpg'' \<and>
   fst (getTrackMediaArt exampleEnvNoSuffix exampleLibrary [1]
          \<lparr>filePath = ''/m/song.mp3'', fileNode = Some songNode\<rparr> False
          (initialScan emptyStore exampleFiles)) = []"
  by code_simp

subsection \<open>The path of embedded art\<close>

lemma of_char_hexDigit:
  "n < 16 \<Longrightarrow> (of_char (hexDigit n) :: nat) = (if n < 10 then 48 + n else 87 + n)"
  by (simp add: hexDigit_def)


lemma hexDigit_inj: "n < 16 \<Longrightarrow> m < 16 \<Longrightarrow> hexDigit n = hexDigit m \<Longrightarrow> n = m"
proof -
  assume n: "n < 16" and m: "m < 16" and "hexDigit n = hexDigit m"
  then have "(of_char (hexDigit n) :: nat) = of_char (hexDigit m)" by simp
  with n m show "n = m" by (simp add: of_char_hexDigit split: if_splits)
qed


lemma toHex_inj: "toHex a = toHex b \<Longrightarrow> a = b"
proof (induction a arbitrary: b)
  case Nil
  then show ?case by (cases b) simp_all
next
  case (Cons x xs)
  then obtain y ys where b: "b = y # ys" by (cases b) auto
  have x: "unat x < 256" using unsigned_less [of x] by simp
  have y: "unat y < 256" using unsigned_less [of y] by simp
  from Cons.prems b have d: "hexDigit (unat x div 16) = hexDigit (unat y div 16)"
    and m: "hexDigit (unat x mod 16) = hexDigit (unat y mod 16)"
    and t: "toHex xs = toHex ys" by simp_all
  from x y d have "unat x div 16 = unat y div 16"
    by (intro hexDigit_inj) simp_all
  moreover from m have "unat x mod 16 = unat y mod 16"
    by (intro hexDigit_inj) simp_all
  ultimately have "unat x = unat y"
    by (metis div_mult_mod_eq)
  then have "x = y" by (simp add: word_unat_eq_iff)
  with Cons.IH [OF t] b show ?case by simp
qed




lemma embeddedFilePath_not_empty: "embeddedFilePath dir h s \<noteq> []"
  by (simp add: embeddedFilePath_def)






text \<open>
  The hypothesis of the theorem holds at the start of a scan when the files that the art
  directory holds under the digest are the program's own for the bytes, and resolutions of
  other bytes keep it (\<open>embedded_art_own_files\<close> below).
\<close>

lemma foldl_insertNew_known:
  "foldl (\<lambda>m p. insertNew m (k p) p) m0 ps h = Some p \<Longrightarrow>
   m0 h = Some p \<or> (p \<in> set ps \<and> k p = h)"
proof (induction ps arbitrary: m0)
  case Nil
  then show ?case by simp
next
  case (Cons q qs)
  from Cons.IH [of "insertNew m0 (k q) q"] Cons.prems
  have "insertNew m0 (k q) q h = Some p \<or> (p \<in> set qs \<and> k p = h)" by simp
  then show ?case
    by (auto simp: insertNew_def split: option.splits if_splits)
qed

lemma loadEmbeddedMediaArtFiles_known:
  assumes "embeddedMediaArtFiles (loadEmbeddedMediaArtFiles lu s) h = Some p"
  shows "p \<in> set (entryFiles (fs s) (mMediaArtDirectory lu)) \<and>
         matchesEmbeddedWildcard (fileName p) \<and>
         left (baseName p) (indexOf (baseName p) ''-embedded'') = h"
proof -
  let ?ps = "filter (\<lambda>p. matchesEmbeddedWildcard (fileName p))
               (entryFiles (fs s) (mMediaArtDirectory lu))"
  from assms have "foldl (\<lambda>m p. insertNew m (left (baseName p) (indexOf (baseName p) ''-embedded'')) p)
      Map.empty ?ps h = Some p"
    by (simp add: loadEmbeddedMediaArtFiles_def Let_def)
  from foldl_insertNew_known [OF this] show ?thesis by simp
qed

lemma saveEmbeddedMediaArt_other:
  assumes "\<forall>p. embeddedMediaArtFiles s (toHex (md5 env d)) = Some p \<longrightarrow>
             p = embeddedFilePath (mMediaArtDirectory lu) (toHex (md5 env d)) (preferredSuffix env d)"
    and "md5 env d' = md5 env d \<longrightarrow> preferredSuffix env d' = preferredSuffix env d"
  shows "\<forall>p. embeddedMediaArtFiles (snd (saveEmbeddedMediaArt env lu d' s)) (toHex (md5 env d)) = Some p
           \<longrightarrow> p = embeddedFilePath (mMediaArtDirectory lu) (toHex (md5 env d)) (preferredSuffix env d)"
  using assms toHex_inj [of "md5 env d'" "md5 env d"]
  by (auto simp: saveEmbeddedMediaArt_def Let_def insertNew_def split: option.splits if_splits)

lemma saveEmbeddedMediaArt_others:
  assumes "\<forall>p. embeddedMediaArtFiles s (toHex (md5 env d)) = Some p \<longrightarrow>
             p = embeddedFilePath (mMediaArtDirectory lu) (toHex (md5 env d)) (preferredSuffix env d)"
    and "\<forall>d' \<in> set ds. md5 env d' = md5 env d \<longrightarrow> preferredSuffix env d' = preferredSuffix env d"
  shows "\<forall>p. embeddedMediaArtFiles
                (foldl (\<lambda>s d'. snd (saveEmbeddedMediaArt env lu d' s)) s ds) (toHex (md5 env d)) = Some p
           \<longrightarrow> p = embeddedFilePath (mMediaArtDirectory lu) (toHex (md5 env d)) (preferredSuffix env d)"
  using assms
proof (induction ds arbitrary: s)
  case Nil
  then show ?case by simp
next
  case (Cons d' ds)
  from Cons.prems have "\<forall>p. embeddedMediaArtFiles (snd (saveEmbeddedMediaArt env lu d' s))
        (toHex (md5 env d)) = Some p \<longrightarrow>
      p = embeddedFilePath (mMediaArtDirectory lu) (toHex (md5 env d)) (preferredSuffix env d)"
    by (intro saveEmbeddedMediaArt_other) simp_all
  with Cons.IH [of "snd (saveEmbeddedMediaArt env lu d' s)"] Cons.prems(2)
  show ?case by simp
qed

lemma embedded_art_own_files:
  assumes "\<forall>p \<in> set (entryFiles (fs s) (mMediaArtDirectory lu)).
             left (baseName p) (indexOf (baseName p) ''-embedded'') = toHex (md5 env d) \<longrightarrow>
             p = embeddedFilePath (mMediaArtDirectory lu) (toHex (md5 env d)) (preferredSuffix env d)"
    and "\<forall>d' \<in> set ds. md5 env d' = md5 env d \<longrightarrow> preferredSuffix env d' = preferredSuffix env d"
  shows "\<forall>p. embeddedMediaArtFiles
                (foldl (\<lambda>s d'. snd (saveEmbeddedMediaArt env lu d' s))
                   (loadEmbeddedMediaArtFiles lu s) ds) (toHex (md5 env d)) = Some p
           \<longrightarrow> p = embeddedFilePath (mMediaArtDirectory lu) (toHex (md5 env d)) (preferredSuffix env d)"
proof (rule saveEmbeddedMediaArt_others [OF _ assms(2)], intro allI impI)
  fix p
  assume "embeddedMediaArtFiles (loadEmbeddedMediaArtFiles lu s) (toHex (md5 env d)) = Some p"
  from loadEmbeddedMediaArtFiles_known [OF this] assms(1)
  show "p = embeddedFilePath (mMediaArtDirectory lu) (toHex (md5 env d)) (preferredSuffix env d)"
    by blast
qed








subsection \<open>Files that are in the index\<close>

lemma findMediaArtForDirectory_db:
  "db (snd (findMediaArtForDirectory dir st)) = db st \<and>
   filesToRemove (snd (findMediaArtForDirectory dir st)) = filesToRemove st \<and>
   warnings (snd (findMediaArtForDirectory dir st)) = warnings st"
  by (simp add: findMediaArtForDirectory_def Let_def split: option.splits list.splits)

lemma saveEmbeddedMediaArt_db:
  "db (snd (saveEmbeddedMediaArt env lu data st)) = db st \<and>
   filesToRemove (snd (saveEmbeddedMediaArt env lu data st)) = filesToRemove st \<and>
   warnings (snd (saveEmbeddedMediaArt env lu data st)) = warnings st"
  by (simp add: saveEmbeddedMediaArt_def Let_def split: option.splits)

lemma getTrackMediaArt_db:
  "db (snd (getTrackMediaArt env lu data fileInfo prefer st)) = db st \<and>
   filesToRemove (snd (getTrackMediaArt env lu data fileInfo prefer st)) = filesToRemove st \<and>
   warnings (snd (getTrackMediaArt env lu data fileInfo prefer st)) = warnings st"
  by (simp add: getTrackMediaArt_def split_beta findMediaArtForDirectory_db saveEmbeddedMediaArt_db)

lemma execScan_cases:
  "execScan env q st =
     (if statementOk env (length (executed (db st)))
      then (case runStatement q (tracks (db st)) of
              None \<Rightarrow> (False, st\<lparr>db := (db st)\<lparr>executed := executed (db st) @ [(q, False)]\<rparr>\<rparr>)
            | Some rs \<Rightarrow>
                (True, st\<lparr>db := (db st)\<lparr>tracks := rs, executed := executed (db st) @ [(q, True)]\<rparr>\<rparr>))
      else (False, st\<lparr>db := (db st)\<lparr>executed := executed (db st) @ [(q, False)]\<rparr>\<rparr>))"
  by (simp add: execScan_def exec_def split: option.splits)

text \<open>What \<open>updateTrackInDatabase\<close> leaves, whichever of its statements are executed.\<close>

lemma updateTrackInDatabase_result:
  "updateTrackInDatabase env inDb i fileInfo info mediaArt st =
     (let n = length (executed (db st));
          n' = n + (if inDb then 1 else 0);
          rs0 = (if inDb \<and> statementOk env n then filter (\<lambda>r. row_id r \<noteq> i) (tracks (db st))
                 else tracks (db st));
          rs1 = (if statementOk env n' then rs0 @ cartesianRows i fileInfo info mediaArt else rs0)
      in st\<lparr>db := \<lparr>tracks = rs1,
                    executed = executed (db st)
                      @ (if inDb then [(DeleteTrack i, statementOk env n)] else [])
                      @ [(insertStatement i fileInfo info mediaArt, statementOk env n')]\<rparr>,
             warnings := warnings st
               @ (if inDb \<and> \<not> statementOk env n then [''failed to remove track from database'']
                  else [])
               @ (if \<not> statementOk env n' then [''failed to insert track in the database'']
                  else [])\<rparr>)"
  by (cases inDb; cases "statementOk env (length (executed (db st)))";
      cases "statementOk env (Suc (length (executed (db st))))")
     (simp_all add: updateTrackInDatabase_def execScan_cases runStatement_insert qWarning_def Let_def)


lemma processFile_in_index:
  assumes "files st p = Some i" and "modificationTimeHash st i = Some t"
    and "\<not> nodeIsDir node" and "nodeIsReadable node"
  shows "processFile env lu bl prefer (p, node) st =
     (if nodeLastModified node = t
      then processUnchangedFile env lu prefer \<lparr>filePath = p, fileNode = Some node\<rparr> i st
      else processChangedFile env lu prefer \<lparr>filePath = p, fileNode = Some node\<rparr> i st)"
  using assms
  by (simp add: processFile_def Let_def isDir_def isReadable_def modificationTimeAt_def
      lastModified_def)

text \<open>
  Claim C4. Take a readable regular file that the pre-scan index holds under the id \<open>i\<close>
  and whose modification time differs from the stored one. When its MIME type by content
  is not a supported one, the walk appends \<open>i\<close> to the ids to remove and does nothing else;
  the statement after the walk deletes the rows of all these ids. Otherwise the tags are
  read anew, the art is resolved, and the two statements of \<open>updateTrackInDatabase\<close>, when
  they are executed, delete the rows of \<open>i\<close> and add the rows of the file, built from the
  new tags and the file's present modification time, under the same id.
\<close>

theorem changed_file_reinserted:
  assumes "files st p = Some i" and "modificationTimeHash st i = Some t"
    and "nodeLastModified node \<noteq> t" and "\<not> nodeIsDir node" and "nodeIsReadable node"
  shows "(nodeMimeType node \<notin> set mimeTypesByContent \<longrightarrow>
            processFile env lu bl prefer (p, node) st = st\<lparr>filesToRemove := filesToRemove st @ [i]\<rparr>) \<and>
         (nodeMimeType node \<in> set mimeTypesByContent \<and>
          statementOk env (length (executed (db st))) \<and>
          statementOk env (Suc (length (executed (db st)))) \<longrightarrow>
            tracks (db (processFile env lu bl prefer (p, node) st)) =
              filter (\<lambda>r. row_id r \<noteq> i) (tracks (db st)) @
              cartesianRows i \<lparr>filePath = p, fileNode = Some node\<rparr> (nodeTrackInfo node)
                (fst (getTrackMediaArt env lu (mediaArtData (nodeTrackInfo node))
                        \<lparr>filePath = p, fileNode = Some node\<rparr> prefer st)) \<and>
            map fst (executed (db (processFile env lu bl prefer (p, node) st))) =
              map fst (executed (db st)) @
              [DeleteTrack i,
               insertStatement i \<lparr>filePath = p, fileNode = Some node\<rparr> (nodeTrackInfo node)
                 (fst (getTrackMediaArt env lu (mediaArtData (nodeTrackInfo node))
                         \<lparr>filePath = p, fileNode = Some node\<rparr> prefer st))] \<and>
            filesToRemove (processFile env lu bl prefer (p, node) st) = filesToRemove st) \<and>
         (\<forall>s. filesToRemove s \<noteq> [] \<and> statementOk env (length (executed (db s))) \<longrightarrow>
            tracks (db (removeFiles env s)) =
              filter (\<lambda>r. row_id r \<notin> set (filesToRemove s)) (tracks (db s)))"
proof -
  let ?fi = "\<lparr>filePath = p, fileNode = Some node\<rparr>"
  have pf: "processFile env lu bl prefer (p, node) st = processChangedFile env lu prefer ?fi i st"
    using assms by (simp add: processFile_in_index)
  have a: "nodeMimeType node \<notin> set mimeTypesByContent \<longrightarrow>
      processFile env lu bl prefer (p, node) st = st\<lparr>filesToRemove := filesToRemove st @ [i]\<rparr>"
    by (simp add: pf processChangedFile_def Let_def contains_def mimeTypeForFile_def)
  have b: "nodeMimeType node \<in> set mimeTypesByContent \<Longrightarrow>
      processFile env lu bl prefer (p, node) st =
        updateTrackInDatabase env True i ?fi (nodeTrackInfo node)
          (fst (getTrackMediaArt env lu (mediaArtData (nodeTrackInfo node)) ?fi prefer st))
          (snd (getTrackMediaArt env lu (mediaArtData (nodeTrackInfo node)) ?fi prefer st))"
    by (simp add: pf processChangedFile_def Let_def contains_def mimeTypeForFile_def
        getTrackInfo_def split_beta)
  have c: "\<forall>s. filesToRemove s \<noteq> [] \<and> statementOk env (length (executed (db s))) \<longrightarrow>
      tracks (db (removeFiles env s)) =
        filter (\<lambda>r. row_id r \<notin> set (filesToRemove s)) (tracks (db s))"
    by (simp add: removeFiles_def execScan_cases)
  show ?thesis
    using a c
    by (auto simp: b updateTrackInDatabase_result getTrackMediaArt_db Let_def)
qed


lemma example_changed:
  "files (exampleWalkStart [exampleRow\<lparr>row_modificationTime := 4\<rparr>] exampleFiles) ''/m/song.mp3'' = Some 0 \<and>
   modificationTimeHash (exampleWalkStart [exampleRow\<lparr>row_modificationTime := 4\<rparr>] exampleFiles) 0 = Some 4 \<and>
   nodeLastModified songNode = 5 \<and> \<not> nodeIsDir songNode \<and> nodeIsReadable songNode \<and>
   nodeMimeType songNode \<in> set mimeTypesByContent \<and>
   length (executed (db (exampleWalkStart [exampleRow\<lparr>row_modificationTime := 4\<rparr>] exampleFiles))) = 1"
  by code_simp

theorem changed_file_reinserted_witness:
  "files (exampleWalkStart [exampleRow\<lparr>row_modificationTime := 4\<rparr>] exampleFiles) ''/m/song.mp3'' = Some 0 \<and>
   modificationTimeHash (exampleWalkStart [exampleRow\<lparr>row_modificationTime := 4\<rparr>] exampleFiles) 0 = Some 4 \<and>
   nodeLastModified songNode = 5 \<and>
   tracks (db (processFile exampleEnv exampleLibrary [] False (''/m/song.mp3'', songNode)
     (exampleWalkStart [exampleRow\<lparr>row_modificationTime := 4\<rparr>] exampleFiles))) =
   [\<lparr>row_id = 0, row_filePath = ''/m/song.mp3'', row_modificationTime = 5,
     row_title = ''T'', row_artist = ''A'', row_album = ''Alb'', row_year = 0,
     row_trackNumber = 0, row_discNumber = [], row_genre = [], row_duration = 120,
     row_mediaArt = ''/m/folder.jpg''\<rparr>]"
proof -
  let ?st = "exampleWalkStart [exampleRow\<lparr>row_modificationTime := 4\<rparr>] exampleFiles"
  have ok: "statementOk exampleEnv (length (executed (db ?st)))"
    "statementOk exampleEnv (Suc (length (executed (db ?st))))"
    by (simp_all add: exampleEnv_def)
  have t: "tracks (db ?st) = [exampleRow\<lparr>row_modificationTime := 4\<rparr>]"
    by code_simp
  have art: "fst (getTrackMediaArt exampleEnv exampleLibrary (mediaArtData (nodeTrackInfo songNode))
                        \<lparr>filePath = ''/m/song.mp3'', fileNode = Some songNode\<rparr> False ?st) = ''/m/folder.jpg''"
    by code_simp
  have rows: "cartesianRows 0 \<lparr>filePath = ''/m/song.mp3'', fileNode = Some songNode\<rparr>
      (nodeTrackInfo songNode) ''/m/folder.jpg'' =
    [\<lparr>row_id = 0, row_filePath = ''/m/song.mp3'', row_modificationTime = 5,
     row_title = ''T'', row_artist = ''A'', row_album = ''Alb'', row_year = 0,
     row_trackNumber = 0, row_discNumber = [], row_genre = [], row_duration = 120,
     row_mediaArt = ''/m/folder.jpg''\<rparr>]"
    by (simp add: cartesianRows_def songNode_def songInfo_def forEachOrOnce_def lastModified_def)
  from example_changed
  have "nodeMimeType songNode \<in> set mimeTypesByContent" by simp
  with changed_file_reinserted [of ?st "''/m/song.mp3''" 0 4 songNode exampleEnv exampleLibrary "[]" False]
    example_changed ok
  have "tracks (db (processFile exampleEnv exampleLibrary [] False (''/m/song.mp3'', songNode) ?st)) =
      filter (\<lambda>r. row_id r \<noteq> 0) (tracks (db ?st)) @
      cartesianRows 0 \<lparr>filePath = ''/m/song.mp3'', fileNode = Some songNode\<rparr> (nodeTrackInfo songNode)
        (fst (getTrackMediaArt exampleEnv exampleLibrary (mediaArtData (nodeTrackInfo songNode))
                \<lparr>filePath = ''/m/song.mp3'', fileNode = Some songNode\<rparr> False ?st))"
    by simp
  moreover have "row_id exampleRow = 0"
    by (simp add: exampleRow_def)
  ultimately show ?thesis
    using example_changed by (simp add: t art rows)
qed





subsection \<open>Statements that fail\<close>




subsection \<open>Counting tracks and their duration\<close>

lemma toInt_in_range: "- (2 ^ 31) \<le> v \<Longrightarrow> v < 2 ^ 31 \<Longrightarrow> toInt v = v"
  by (simp add: toInt_def sint_sbintrunc' signed_take_bit_int_eq_self)

lemma set_groupIds: "set (groupIds rs) = row_id ` set rs"
  by (simp add: groupIds_def)

lemma distinct_groupIds: "distinct (groupIds rs)"
  by (simp add: groupIds_def)

lemma groupRow_in:
  assumes "i \<in> row_id ` set rs"
  shows "groupRow rs i \<in> set rs \<and> row_id (groupRow rs i) = i"
proof -
  from assms have "filter (\<lambda>r. row_id r = i) rs \<noteq> []"
    by (auto simp: filter_empty_conv)
  then have "hd (filter (\<lambda>r. row_id r = i) rs) \<in> set (filter (\<lambda>r. row_id r = i) rs)"
    by (rule hd_in_set)
  then show ?thesis by (simp add: groupRow_def)
qed

lemma sum_groupDurations:
  assumes "\<forall>r \<in> set rs. row_duration r = dur (row_id r)"
  shows "sum_list (groupDurations rs) = sum dur (row_id ` set rs)"
proof -
  have "row_duration (groupRow rs i) = dur i" if "i \<in> set (groupIds rs)" for i
    using that assms groupRow_in [of i rs] by (auto simp: set_groupIds)
  then have "map (\<lambda>i. row_duration (groupRow rs i)) (groupIds rs) = map dur (groupIds rs)"
    by (intro map_cong [OF refl])
  then have "sum_list (groupDurations rs) = sum_list (map dur (groupIds rs))"
    unfolding groupDurations_def by (rule arg_cong [where f = sum_list])
  also have "\<dots> = sum dur (set (groupIds rs))"
    using distinct_groupIds by (rule sum_list_distinct_conv_sum_set)
  finally show ?thesis by (simp add: set_groupIds)
qed

text \<open>
  Claim C8. On an initialised store whose query is executed, and in which the rows of one
  id all carry the duration \<open>dur\<close> of that id (as the rows of one file do),
  \<open>tracksDuration\<close> answers the sum of \<open>dur\<close> over the distinct ids, read as a 32-bit
  \<^verbatim>\<open>int\<close>: the sum itself whenever it fits. A file with several rows counts once, and
  \<open>tracksCount\<close> answers the number of distinct ids. In the scenario of the specification
  (empty index, one library directory with a song of duration 120 and an image beside it,
  directory art not preferred, no embedded art) the scan leaves the one row of the song,
  and the two operations answer 1 and 120.
\<close>

theorem tracksDuration_once_per_id:
  "(mDatabaseInitialized lu \<and> ok (length (executed d)) \<and>
    (\<forall>r \<in> set (tracks d). row_duration r = dur (row_id r)) \<longrightarrow>
      fst (tracksDuration ok lu d) = toInt (sum dur (row_id ` set (tracks d))) \<and>
      (- (2 ^ 31) \<le> sum dur (row_id ` set (tracks d)) \<and> sum dur (row_id ` set (tracks d)) < 2 ^ 31
         \<longrightarrow> fst (tracksDuration ok lu d) = sum dur (row_id ` set (tracks d))) \<and>
      fst (tracksCount ok lu d) = toInt (int (card (row_id ` set (tracks d))))) \<and>
   tracks (db (rescan exampleEnv exampleLibrary emptyStore exampleFiles)) =
     [\<lparr>row_id = 0, row_filePath = ''/m/song.mp3'', row_modificationTime = 5,
       row_title = ''T'', row_artist = ''A'', row_album = ''Alb'', row_year = 0,
       row_trackNumber = 0, row_discNumber = [], row_genre = [], row_duration = 120,
       row_mediaArt = ''/m/folder.jpg''\<rparr>] \<and>
   fst (tracksCount (\<lambda>n. True) (exampleLibrary\<lparr>mDatabaseInitialized := True\<rparr>)
          \<lparr>tracks = tracks (db (rescan exampleEnv exampleLibrary emptyStore exampleFiles)),
           executed = []\<rparr>) = 1 \<and>
   fst (tracksDuration (\<lambda>n. True) (exampleLibrary\<lparr>mDatabaseInitialized := True\<rparr>)
          \<lparr>tracks = tracks (db (rescan exampleEnv exampleLibrary emptyStore exampleFiles)),
           executed = []\<rparr>) = 120"
proof -
  have general: "mDatabaseInitialized lu \<and> ok (length (executed d)) \<and>
    (\<forall>r \<in> set (tracks d). row_duration r = dur (row_id r)) \<longrightarrow>
      fst (tracksDuration ok lu d) = toInt (sum dur (row_id ` set (tracks d))) \<and>
      (- (2 ^ 31) \<le> sum dur (row_id ` set (tracks d)) \<and> sum dur (row_id ` set (tracks d)) < 2 ^ 31
         \<longrightarrow> fst (tracksDuration ok lu d) = sum dur (row_id ` set (tracks d))) \<and>
      fst (tracksCount ok lu d) = toInt (int (card (row_id ` set (tracks d))))"
  proof (intro impI, elim conjE)
    assume init: "mDatabaseInitialized lu" and ok: "ok (length (executed d))"
      and dur: "\<forall>r \<in> set (tracks d). row_duration r = dur (row_id r)"
    have d: "fst (tracksDuration ok lu d) = toInt (sum dur (row_id ` set (tracks d)))"
      using init ok by (simp add: tracksDuration_def exec_def sum_groupDurations [OF dur])
    have "length (remdups (map row_id (tracks d))) = card (row_id ` set (tracks d))"
      by (simp add: length_remdups_card_conv)
    then have c: "fst (tracksCount ok lu d) = toInt (int (card (row_id ` set (tracks d))))"
      using init ok by (simp add: tracksCount_def exec_def)
    show "fst (tracksDuration ok lu d) = toInt (sum dur (row_id ` set (tracks d))) \<and>
      (- (2 ^ 31) \<le> sum dur (row_id ` set (tracks d)) \<and> sum dur (row_id ` set (tracks d)) < 2 ^ 31
         \<longrightarrow> fst (tracksDuration ok lu d) = sum dur (row_id ` set (tracks d))) \<and>
      fst (tracksCount ok lu d) = toInt (int (card (row_id ` set (tracks d))))"
      using d c by (simp add: toInt_in_range)
  qed
  have rows: "tracks (db (rescan exampleEnv exampleLibrary emptyStore exampleFiles)) =
     [\<lparr>row_id = 0, row_filePath = ''/m/song.mp3'', row_modificationTime = 5,
       row_title = ''T'', row_artist = ''A'', row_album = ''Alb'', row_year = 0,
       row_trackNumber = 0, row_discNumber = [], row_genre = [], row_duration = 120,
       row_mediaArt = ''/m/folder.jpg''\<rparr>]"
    by code_simp
  have count: "fst (tracksCount (\<lambda>n. True) (exampleLibrary\<lparr>mDatabaseInitialized := True\<rparr>)
          \<lparr>tracks = tracks (db (rescan exampleEnv exampleLibrary emptyStore exampleFiles)),
           executed = []\<rparr>) = 1"
    unfolding rows by code_simp
  have duration: "fst (tracksDuration (\<lambda>n. True) (exampleLibrary\<lparr>mDatabaseInitialized := True\<rparr>)
          \<lparr>tracks = tracks (db (rescan exampleEnv exampleLibrary emptyStore exampleFiles)),
           executed = []\<rparr>) = 120"
    unfolding rows by code_simp
  from general rows count duration show ?thesis by blast
qed

text \<open>A file with two artists has two rows and still counts once, with its duration once.\<close>

theorem tracksDuration_once_per_id_witness:
  "mDatabaseInitialized (exampleLibrary\<lparr>mDatabaseInitialized := True\<rparr>) \<and>
   map row_id (cartesianRows 7 \<lparr>filePath = ''/m/s.mp3'', fileNode = None\<rparr>
      (songInfo\<lparr>artists := [''A'', ''B'']\<rparr>) []) = [7, 7] \<and>
   map row_duration (cartesianRows 7 \<lparr>filePath = ''/m/s.mp3'', fileNode = None\<rparr>
      (songInfo\<lparr>artists := [''A'', ''B'']\<rparr>) []) = [120, 120] \<and>
   fst (tracksDuration (\<lambda>n. True) (exampleLibrary\<lparr>mDatabaseInitialized := True\<rparr>)
     \<lparr>tracks = cartesianRows 7 \<lparr>filePath = ''/m/s.mp3'', fileNode = None\<rparr>
        (songInfo\<lparr>artists := [''A'', ''B'']\<rparr>) [], executed = []\<rparr>) = 120 \<and>
   fst (tracksCount (\<lambda>n. True) (exampleLibrary\<lparr>mDatabaseInitialized := True\<rparr>)
     \<lparr>tracks = cartesianRows 7 \<lparr>filePath = ''/m/s.mp3'', fileNode = None\<rparr>
        (songInfo\<lparr>artists := [''A'', ''B'']\<rparr>) [], executed = []\<rparr>) = 1"
proof -
  let ?rs = "cartesianRows 7 \<lparr>filePath = ''/m/s.mp3'', fileNode = None\<rparr>
      (songInfo\<lparr>artists := [''A'', ''B'']\<rparr>) []"
  have ids: "map row_id ?rs = [7, 7]" and durs: "map row_duration ?rs = [120, 120]"
    by (simp_all add: cartesianRows_def songInfo_def forEachOrOnce_def)
  have set_ids: "row_id ` set ?rs = {7}"
    using ids by (metis (no_types, lifting) insert_absorb2 list.set(1) list.set(2) set_map)
  have all: "\<forall>r \<in> set ?rs. row_duration r = (\<lambda>i. 120) (row_id r)"
    by (simp add: cartesianRows_def songInfo_def forEachOrOnce_def)
  from tracksDuration_once_per_id [of "exampleLibrary\<lparr>mDatabaseInitialized := True\<rparr>"
      "\<lambda>n. True" "\<lparr>tracks = ?rs, executed = []\<rparr>" "\<lambda>i. 120"] all
  have "fst (tracksDuration (\<lambda>n. True) (exampleLibrary\<lparr>mDatabaseInitialized := True\<rparr>)
           \<lparr>tracks = ?rs, executed = []\<rparr>) = toInt (sum (\<lambda>i. 120) (row_id ` set ?rs))"
    and "fst (tracksCount (\<lambda>n. True) (exampleLibrary\<lparr>mDatabaseInitialized := True\<rparr>)
           \<lparr>tracks = ?rs, executed = []\<rparr>) = toInt (int (card (row_id ` set ?rs)))"
    by simp_all
  then show ?thesis
    using ids durs by (simp add: set_ids toInt_in_range)
qed

subsection \<open>Scanning twice\<close>

text \<open>
  Claim C7 does not hold of the program. Take a song with embedded art whose type has no
  suffix and an image beside it, directory art not being preferred. The first scan, of the
  empty index, stores the song without art, since the embedded bytes cannot be saved. The
  second scan finds the file unchanged and its stored art empty, does not look at the
  embedded bytes, and stores the image of the directory. The third scan, the stored art
  being external now, looks at the embedded bytes again and stores no art. Nothing on disk
  changes in between: the files are the same after the first and the second scan.
\<close>

theorem rescan_twice_differs:
  "(let r1 = rescan exampleEnvNoSuffix exampleLibrary emptyStore exampleFilesEmbedded;
        r2 = rescan exampleEnvNoSuffix exampleLibrary ((db r1)\<lparr>executed := []\<rparr>) (fs r1);
        r3 = rescan exampleEnvNoSuffix exampleLibrary ((db r2)\<lparr>executed := []\<rparr>) (fs r2)
    in map row_mediaArt (tracks (db r1)) = [[]] \<and>
       map row_mediaArt (tracks (db r2)) = [''/m/folder.jpg''] \<and>
       map row_mediaArt (tracks (db r3)) = [[]] \<and>
       map fst (fs r1) = map fst (fs r2))"
  by code_simp

end
